theory Spec2Isabelle
  imports Main "HOL-Library.Word"
begin

section \<open>Strings of the source language\<close>

text \<open>
  A TypeScript string is a sequence of UTF-16 code units; \<open>length\<close>, \<open>trim\<close> and a
  regular expression without the \<open>u\<close> flag all work on code units. A string is therefore
  a list of 16-bit words. \<open>js\<close> writes an ASCII literal of the source.
\<close>

type_synonym jsstring = "16 word list"

definition js :: "string \<Rightarrow> jsstring" where
  "js s = map of_char s"

text \<open>
  The code units that \<open>String.prototype.trim\<close> strips and that \<open>\s\<close> matches in a regular
  expression: ECMAScript's WhiteSpace and LineTerminator productions (TAB, LF, VT, FF, CR,
  SPACE, NBSP, U+1680, U+2000 to U+200A, LS, PS, U+202F, U+205F, U+3000, U+FEFF).
\<close>

definition isWhiteSpace :: "16 word \<Rightarrow> bool" where
  "isWhiteSpace c =
     (c = 0x0009 \<or> c = 0x000A \<or> c = 0x000B \<or> c = 0x000C \<or> c = 0x000D \<or> c = 0x0020 \<or>
      c = 0x00A0 \<or> c = 0x1680 \<or> (0x2000 \<le> c \<and> c \<le> 0x200A) \<or> c = 0x2028 \<or>
      c = 0x2029 \<or> c = 0x202F \<or> c = 0x205F \<or> c = 0x3000 \<or> c = 0xFEFF)"

definition trim :: "jsstring \<Rightarrow> jsstring" where
  "trim s = rev (dropWhile isWhiteSpace (rev (dropWhile isWhiteSpace s)))"

section \<open>Regular expressions of the shape used by the validator\<close>

text \<open>
  The only regular expression of the source is
  \<^verbatim>\<open>/^[^\s@]+@[^\s@]+\.[^\s@]+$/\<close>: anchored at both ends, a sequence of literal
  characters and of character classes repeated one or more times. \<open>rmatch\<close> decides
  whether the whole string matches such a sequence, which is what \<open>RegExp.prototype.test\<close>
  returns for an expression between \<open>^\<close> and \<open>$\<close> (no \<open>m\<close> flag).
\<close>

datatype atom = Chr "16 word" | OneOrMore "16 word \<Rightarrow> bool"

fun rmatch :: "atom list \<Rightarrow> jsstring \<Rightarrow> bool" where
  "rmatch [] s = (s = [])"
| "rmatch (Chr c # as) [] = False"
| "rmatch (Chr c # as) (x # xs) = (x = c \<and> rmatch as xs)"
| "rmatch (OneOrMore p # as) [] = False"
| "rmatch (OneOrMore p # as) (x # xs) =
     (p x \<and> (rmatch as xs \<or> rmatch (OneOrMore p # as) xs))"

definition notSpaceNorAt :: "16 word \<Rightarrow> bool" where
  "notSpaceNorAt c = (\<not> isWhiteSpace c \<and> c \<noteq> 0x0040)"

definition emailRegex :: "atom list" where
  "emailRegex =
     [OneOrMore notSpaceNorAt, Chr 0x0040, OneOrMore notSpaceNorAt, Chr 0x002E,
      OneOrMore notSpaceNorAt]"

text \<open>
  The shape "\<open>ok\<close> characters, \<open>@\<close>, \<open>ok\<close> characters, \<open>.\<close>, \<open>ok\<close> characters", each run
  not empty, stated without reference to the matcher.
\<close>

definition shape :: "(16 word \<Rightarrow> bool) \<Rightarrow> jsstring \<Rightarrow> bool" where
  "shape ok v =
     (\<exists>a b c. v = a @ 0x0040 # b @ 0x002E # c \<and> a \<noteq> [] \<and> b \<noteq> [] \<and> c \<noteq> [] \<and>
        list_all ok a \<and> list_all ok b \<and> list_all ok c)"

definition notSpace :: "16 word \<Rightarrow> bool" where
  "notSpace c = (\<not> isWhiteSpace c)"

section \<open>Form data and validation (Modal.tsx, types.ts)\<close>

text \<open>
  \<open>keyof FormData\<close> has the two members \<open>name\<close> and \<open>email\<close>. The source reads and
  writes the form objects through a computed key (\<open>data[field]\<close>,
  \<open>{...prev, [field]: value}\<close>), so an object over these keys is a function of the key:
  total for \<open>FormData\<close>, partial for \<open>FormErrors\<close> and the touched flags, whose keys are
  optional. A value of \<open>FormErrors\<close> may be \<open>undefined\<close> (\<open>None\<close>) under a key that is
  present.
\<close>

datatype field = Name | Email

type_synonym FormData = "field \<Rightarrow> jsstring"

type_synonym FormErrors = "field \<rightharpoonup> jsstring option"

type_synonym Touched = "field \<rightharpoonup> bool"

text \<open>The four messages of \<open>validateField\<close>, as the code units of the source literals.\<close>

definition msgNameRequired :: jsstring where
  "msgNameRequired =
     [0xC774, 0xB984, 0xC744, 0x0020, 0xC785, 0xB825, 0xD574, 0xC8FC, 0xC138, 0xC694, 0x002E]"

definition msgNameTooShort :: jsstring where
  "msgNameTooShort =
     [0xC774, 0xB984, 0xC740, 0x0020, 0x0032, 0xAE00, 0xC790, 0x0020, 0xC774, 0xC0C1, 0x0020,
      0xC785, 0xB825, 0xD574, 0xC8FC, 0xC138, 0xC694, 0x002E]"

definition msgEmailRequired :: jsstring where
  "msgEmailRequired =
     [0xC774, 0xBA54, 0xC77C, 0xC744, 0x0020, 0xC785, 0xB825, 0xD574, 0xC8FC, 0xC138, 0xC694,
      0x002E]"

definition msgEmailInvalid :: jsstring where
  "msgEmailInvalid =
     [0xC62C, 0xBC14, 0xB978, 0x0020, 0xC774, 0xBA54, 0xC77C, 0x0020, 0xD615, 0xC2DD, 0xC744,
      0x0020, 0xC785, 0xB825, 0xD574, 0xC8FC, 0xC138, 0xC694, 0x002E]"

text \<open>
  \<open>validateField\<close> returns \<open>string | undefined\<close>: \<open>None\<close> is \<open>undefined\<close>. The test
  \<open>!value.trim()\<close> holds exactly for the empty string.
\<close>

fun validateField :: "field \<Rightarrow> jsstring \<Rightarrow> jsstring option" where
  "validateField Name v =
     (if trim v = [] then Some msgNameRequired
      else if length (trim v) < 2 then Some msgNameTooShort
      else None)"
| "validateField Email v =
     (if trim v = [] then Some msgEmailRequired
      else if \<not> rmatch emailRegex v then Some msgEmailInvalid
      else None)"

text \<open>
  \<open>if (error)\<close> tests a \<open>string | undefined\<close>: it holds for a string that is not empty.
\<close>

definition truthy :: "jsstring option \<Rightarrow> bool" where
  "truthy e = (case e of None \<Rightarrow> False | Some m \<Rightarrow> m \<noteq> [])"

text \<open>
  \<open>Object.keys\<close> of an object over the keys of \<open>FormData\<close>. Every \<open>FormData\<close> of the
  program is built as \<open>{ name, email }\<close> or spread from one, so its keys are both, in this
  order; of an object with optional keys, those that are present.
\<close>

definition keysFormData :: "field list" where
  "keysFormData = [Name, Email]"

definition objectKeys :: "(field \<rightharpoonup> 'a) \<Rightarrow> field list" where
  "objectKeys obj = filter (\<lambda>k. obj k \<noteq> None) [Name, Email]"

text \<open>Reading \<open>obj[field]\<close> or \<open>obj.name\<close>: \<open>undefined\<close> when the key is absent.\<close>

definition getProp :: "(field \<rightharpoonup> 'a option) \<Rightarrow> field \<Rightarrow> 'a option" where
  "getProp obj k = (case obj k of None \<Rightarrow> None | Some v \<Rightarrow> v)"

definition validateForm :: "FormData \<Rightarrow> FormErrors" where
  "validateForm data =
     fold (\<lambda>field newErrors.
             let error = validateField field (data field)
             in if truthy error then newErrors(field \<mapsto> error) else newErrors)
          keysFormData Map.empty"

subsection \<open>The state of the form and its handlers\<close>

text \<open>
  The three \<open>useState\<close> cells of \<open>Modal\<close>. A handler runs on the values of the render it
  was created in and queues updates, which React applies in order before the next
  render; a handler of the model takes that state and returns the state after its
  updates, together with the calls it made to the \<open>onSubmit\<close> callback.
\<close>

record form_state =
  formData :: FormData
  errors :: FormErrors
  touched :: Touched

definition emptyFormData :: FormData where
  "emptyFormData = (\<lambda>k. case k of Name \<Rightarrow> [] | Email \<Rightarrow> [])"

definition initialForm :: form_state where
  "initialForm = \<lparr>formData = emptyFormData, errors = Map.empty, touched = Map.empty\<rparr>"

definition allTouched :: Touched where
  "allTouched = [Name \<mapsto> True, Email \<mapsto> True]"

definition handleSubmit :: "form_state \<Rightarrow> form_state \<times> FormData list" where
  "handleSubmit s =
     (let s1 = s\<lparr>touched := allTouched\<rparr>;
          formErrors = validateForm (formData s);
          s2 = s1\<lparr>errors := formErrors\<rparr>
      in if length (objectKeys formErrors) = 0
         then (s2\<lparr>formData := emptyFormData, errors := Map.empty, touched := Map.empty\<rparr>,
               [formData s])
         else (s2, []))"

definition handleInputChange :: "field \<Rightarrow> jsstring \<Rightarrow> form_state \<Rightarrow> form_state" where
  "handleInputChange field v s =
     (let s1 = s\<lparr>formData := (formData s)(field := v)\<rparr>
      in if touched s field = Some True
         then s1\<lparr>errors := (errors s1)(field \<mapsto> validateField field v)\<rparr>
         else s1)"

definition handleBlur :: "field \<Rightarrow> form_state \<Rightarrow> form_state" where
  "handleBlur field s =
     s\<lparr>touched := (touched s)(field \<mapsto> True),
       errors := (errors s)(field \<mapsto> validateField field (formData s field))\<rparr>"

text \<open>Input changes and blurs of one open dialog, in the order they happen.\<close>

datatype form_event = Change field jsstring | Blur field

fun form_step :: "form_state \<Rightarrow> form_event \<Rightarrow> form_state" where
  "form_step s (Change k v) = handleInputChange k v s"
| "form_step s (Blur k) = handleBlur k s"

definition form_run :: "form_state \<Rightarrow> form_event list \<Rightarrow> form_state" where
  "form_run s evs = foldl form_step s evs"

text \<open>No error message is stored for a field that is not touched.\<close>

definition quiet :: "form_state \<Rightarrow> bool" where
  "quiet s =
     list_all (\<lambda>k. touched s k = Some True \<or> getProp (errors s) k = None) keysFormData"

text \<open>Two forms of the specification's scenarios.\<close>

definition aliceData :: FormData where
  "aliceData = (\<lambda>k. case k of Name \<Rightarrow> js ''Alice'' | Email \<Rightarrow> js ''alice@example.com'')"

definition shortNameData :: FormData where
  "shortNameData = (\<lambda>k. case k of Name \<Rightarrow> js ''A'' | Email \<Rightarrow> js ''a@b.com'')"

section \<open>The host surface (Page.tsx)\<close>

text \<open>
  \<open>ModalResult\<close> is \<open>FormData | null\<close>. Promises are numbered in the order
  \<open>openFormModal\<close> creates them; \<open>modalState.resolve\<close> holds the resolve function of one
  of them, or is \<open>undefined\<close>. \<open>resolved\<close> lists the calls made to resolve functions, in
  order, as pairs of the promise and the value; \<open>promises\<close> counts the promises created.
\<close>

type_synonym ModalResult = "FormData option"

record page_state =
  isOpen :: bool
  resolve :: "nat option"
  resolved :: "(nat \<times> ModalResult) list"
  promises :: nat

definition initialPage :: page_state where
  "initialPage = \<lparr>isOpen = False, resolve = None, resolved = [], promises = 0\<rparr>"

text \<open>\<open>openFormModal\<close> returns the promise numbered \<open>promises p\<close>.\<close>

definition openFormModal :: "page_state \<Rightarrow> page_state" where
  "openFormModal p =
     p\<lparr>isOpen := True, resolve := Some (promises p), promises := Suc (promises p)\<rparr>"

definition handleCloseModal :: "page_state \<Rightarrow> page_state" where
  "handleCloseModal p =
     (let p1 = (case resolve p of
                  Some r \<Rightarrow> p\<lparr>resolved := resolved p @ [(r, None)]\<rparr>
                | None \<Rightarrow> p)
      in p1\<lparr>isOpen := False, resolve := None\<rparr>)"

definition handleFormSubmit :: "FormData \<Rightarrow> page_state \<Rightarrow> page_state" where
  "handleFormSubmit data p =
     (let p1 = (case resolve p of
                  Some r \<Rightarrow> p\<lparr>resolved := resolved p @ [(r, Some data)]\<rparr>
                | None \<Rightarrow> p)
      in p1\<lparr>isOpen := False, resolve := None\<rparr>)"

text \<open>A promise settles with the value of the first call to its resolve function.\<close>

definition settled :: "page_state \<Rightarrow> nat \<Rightarrow> ModalResult option" where
  "settled p n = map_of (resolved p) n"

datatype page_event = Open | Close | SubmitData FormData

fun page_step :: "page_state \<Rightarrow> page_event \<Rightarrow> page_state" where
  "page_step p Open = openFormModal p"
| "page_step p Close = handleCloseModal p"
| "page_step p (SubmitData d) = handleFormSubmit d p"

definition page_run :: "page_state \<Rightarrow> page_event list \<Rightarrow> page_state" where
  "page_run p evs = foldl page_step p evs"

text \<open>
  The pending resolve function, if any, belongs to a promise that was created and never
  resolved; every resolved promise was created; no promise was resolved twice.
\<close>

definition page_ok :: "page_state \<Rightarrow> bool" where
  "page_ok p =
     ((case resolve p of None \<Rightarrow> True
       | Some r \<Rightarrow> r < promises p \<and> r \<notin> fst ` set (resolved p)) \<and>
      list_all (\<lambda>c. fst c < promises p) (resolved p) \<and>
      distinct (map fst (resolved p)))"

text \<open>A promise that was created, is not resolved and whose resolve function is not held.\<close>

definition lost :: "page_state \<Rightarrow> nat \<Rightarrow> bool" where
  "lost p r = (r < promises p \<and> resolve p \<noteq> Some r \<and> settled p r = None)"

section \<open>The document and the dialog's lifecycle (Modal.tsx)\<close>

text \<open>
  The elements that can hold focus or be the target of an event. The JSX of \<open>Page\<close> and
  \<open>Modal\<close> is static: the page's button, and, while the dialog is rendered, the backdrop,
  the panel inside it (\<open>modalRef\<close>), the two inputs and the two buttons inside the panel,
  and the panel's other nodes (heading, form, labels). \<open>Other\<close> is any further focusable
  element of the host document.
\<close>

datatype element =
    Body | OpenButton | Other nat
  | Overlay | Panel | PanelChild nat | NameInput | EmailInput | CancelButton | SubmitButton

text \<open>\<open>modalRef.current.contains(e)\<close>.\<close>

fun inPanel :: "element \<Rightarrow> bool" where
  "inPanel Panel = True"
| "inPanel (PanelChild n) = True"
| "inPanel NameInput = True"
| "inPanel EmailInput = True"
| "inPanel CancelButton = True"
| "inPanel SubmitButton = True"
| "inPanel e = False"

text \<open>
  Whether \<open>e.focus()\<close> moves the focus: the element is focusable and in the document.
  The dialog's elements are in the document while the dialog is rendered.
\<close>

fun canFocus :: "bool \<Rightarrow> element \<Rightarrow> bool" where
  "canFocus rendered OpenButton = True"
| "canFocus rendered (Other n) = True"
| "canFocus rendered NameInput = rendered"
| "canFocus rendered EmailInput = rendered"
| "canFocus rendered CancelButton = rendered"
| "canFocus rendered SubmitButton = rendered"
| "canFocus rendered e = False"

text \<open>
  \<open>getFocusableElements(modalRef.current)\<close>: the panel's elements that match the selector
  list, in document order. No element of the JSX is disabled.
\<close>

definition getFocusableElements :: "element list" where
  "getFocusableElements = [NameInput, EmailInput, CancelButton, SubmitButton]"

text \<open>
  The state of the document that the effect touches: the focused element, the inline
  \<open>overflow\<close> style of the body, the \<open>keydown\<close> listeners of \<open>document\<close> and the pending
  timeouts. The listener and the timeout of the effect's \<open>n\<close>-th run are
  \<open>HandleKeyDown n\<close> and \<open>FocusTimeout n\<close>; the others belong to other code.
\<close>

datatype listener = HandleKeyDown nat | ForeignListener nat

datatype timeout = FocusTimeout nat | ForeignTimeout nat

record document =
  activeElement :: "element option"
  overflow :: jsstring
  keydownListeners :: "listener list"
  timeouts :: "timeout list"

definition focus :: "bool \<Rightarrow> element \<Rightarrow> document \<Rightarrow> document" where
  "focus rendered e d = (if canFocus rendered e then d\<lparr>activeElement := Some e\<rparr> else d)"

definition addEventListener :: "listener \<Rightarrow> listener list \<Rightarrow> listener list" where
  "addEventListener l ls = (if l \<in> set ls then ls else ls @ [l])"

text \<open>
  What \<open>handleKeyDown\<close> does with a key event: call \<open>onClose\<close>, or prevent the default
  action and focus an element, or nothing.
\<close>

datatype key_outcome = CallOnClose | Redirect element | NoAction

definition containsActive :: "element option \<Rightarrow> bool" where
  "containsActive active = (case active of None \<Rightarrow> False | Some e \<Rightarrow> inPanel e)"

definition handleKeyDown ::
  "jsstring \<Rightarrow> bool \<Rightarrow> bool \<Rightarrow> element list \<Rightarrow> element option \<Rightarrow> key_outcome" where
  "handleKeyDown key shiftKey modalRefSet focusableElements active =
     (if key = js ''Escape'' then CallOnClose
      else if key = js ''Tab'' \<and> modalRefSet then
        (case focusableElements of
           [] \<Rightarrow> NoAction
         | firstElement # rest \<Rightarrow>
             (let lastElement = last focusableElements
              in if shiftKey
                 then (if active = Some firstElement \<or> \<not> containsActive active
                       then Redirect lastElement else NoAction)
                 else (if active = Some lastElement \<or> \<not> containsActive active
                       then Redirect firstElement else NoAction)))
      else NoAction)"

text \<open>
  The whole program: the page, the form state of \<open>Modal\<close> (the component stays mounted
  in \<open>Page\<close> while it renders nothing, so its state lives on), the \<open>lastFocusedElement\<close>
  ref, the cleanup function that the last run of the effect returned (\<open>activeEffect\<close>,
  the number of that run), the number of runs, and the document.
\<close>

record system =
  page :: page_state
  form :: form_state
  lastFocusedElement :: "element option"
  activeEffect :: "nat option"
  effectRuns :: nat
  doc :: document

definition initialSystem :: "document \<Rightarrow> system" where
  "initialSystem d =
     \<lparr>page = initialPage, form = initialForm, lastFocusedElement = None,
      activeEffect = None, effectRuns = 0, doc = d\<rparr>"

text \<open>The body of the effect (lines 66 to 113) and the cleanup it returns (114 to 127).\<close>

definition effectSetup :: "system \<Rightarrow> system" where
  "effectSetup s =
     (if \<not> isOpen (page s) then s\<lparr>activeEffect := None\<rparr>
      else
        (let n = effectRuns s; d = doc s
         in s\<lparr>lastFocusedElement := activeElement d,
              doc := d\<lparr>overflow := js ''hidden'',
                       keydownListeners := addEventListener (HandleKeyDown n) (keydownListeners d),
                       timeouts := timeouts d @ [FocusTimeout n]\<rparr>,
              activeEffect := Some n,
              effectRuns := Suc n\<rparr>))"

definition effectCleanup :: "system \<Rightarrow> system" where
  "effectCleanup s =
     (case activeEffect s of
        None \<Rightarrow> s
      | Some n \<Rightarrow>
          (let d1 = (doc s)\<lparr>keydownListeners := removeAll (HandleKeyDown n) (keydownListeners (doc s)),
                            overflow := [],
                            timeouts := removeAll (FocusTimeout n) (timeouts (doc s))\<rparr>;
               d2 = (case lastFocusedElement s of
                       None \<Rightarrow> d1
                     | Some e \<Rightarrow> focus (isOpen (page s)) e d1)
           in s\<lparr>doc := d2, activeEffect := None\<rparr>))"

text \<open>
  When the dialog's nodes leave the document, the focus of an element among them falls
  back to the body.
\<close>

definition removeModalNodes :: "system \<Rightarrow> system" where
  "removeModalNodes s =
     (case activeElement (doc s) of
        None \<Rightarrow> s
      | Some e \<Rightarrow>
          if \<not> isOpen (page s) \<and> (e = Overlay \<or> inPanel e)
          then s\<lparr>doc := (doc s)\<lparr>activeElement := Some Body\<rparr>\<rparr> else s)"

text \<open>
  A call of \<open>setModalState\<close> renders \<open>Page\<close> again. \<open>handleCloseModal\<close> is a new function
  in every render of \<open>Page\<close>, so the effect's dependency \<open>onClose\<close> has changed: React
  updates the document, runs the cleanup of the previous run and then the effect.
\<close>

definition commit :: "system \<Rightarrow> system" where
  "commit s = effectSetup (effectCleanup (removeModalNodes s))"

definition onClose :: "system \<Rightarrow> system" where
  "onClose s = commit (s\<lparr>page := handleCloseModal (page s)\<rparr>)"

definition onSubmit :: "FormData \<Rightarrow> system \<Rightarrow> system" where
  "onSubmit data s = commit (s\<lparr>page := handleFormSubmit data (page s)\<rparr>)"

text \<open>
  A \<open>keydown\<close> event goes to the focused element (the body when there is none) and
  bubbles. React dispatches it at its root container to the handlers on the path: for a
  target inside the panel that is the panel's
  \<open>onKeyDown={(e) => e.stopPropagation()}\<close> (line 187), which stops the native event
  there, before it reaches the listeners of \<open>document\<close>. (\<open>useId\<close> needs React 18; since
  React 17 the events are delegated to the root container and not to \<open>document\<close>.)
\<close>

definition keyTarget :: "system \<Rightarrow> element" where
  "keyTarget s = (case activeElement (doc s) of None \<Rightarrow> Body | Some e \<Rightarrow> e)"

definition reachesDocument :: "system \<Rightarrow> bool" where
  "reachesDocument s = (\<not> (isOpen (page s) \<and> inPanel (keyTarget s)))"

definition keyDown :: "jsstring \<Rightarrow> bool \<Rightarrow> system \<Rightarrow> system" where
  "keyDown key shiftKey s =
     (if \<not> reachesDocument s then s
      else
        (case activeEffect s of
           None \<Rightarrow> s
         | Some n \<Rightarrow>
             if HandleKeyDown n \<in> set (keydownListeners (doc s))
             then (case handleKeyDown key shiftKey (isOpen (page s)) getFocusableElements
                          (activeElement (doc s)) of
                     CallOnClose \<Rightarrow> onClose s
                   | Redirect e \<Rightarrow> s\<lparr>doc := focus (isOpen (page s)) e (doc s)\<rparr>
                   | NoAction \<Rightarrow> s)
             else s))"

text \<open>
  A click: on the page's button it calls \<open>openFormModal\<close>; on the Cancel button,
  \<open>onClose\<close>; on the backdrop itself, \<open>handleOverlayClick\<close> finds the target equal to the
  current target and calls \<open>onClose\<close>; anywhere else in the panel the panel's handler
  stops the event. The submit event that follows a click on the submit button is an
  event of its own.
\<close>

definition click :: "element \<Rightarrow> system \<Rightarrow> system" where
  "click e s =
     (if e = OpenButton then commit (s\<lparr>page := openFormModal (page s)\<rparr>)
      else if isOpen (page s) \<and> (e = CancelButton \<or> e = Overlay) then onClose s
      else s)"

definition submitForm :: "system \<Rightarrow> system" where
  "submitForm s =
     (let (f, calls) = handleSubmit (form s)
      in fold onSubmit calls (s\<lparr>form := f\<rparr>))"

text \<open>The timeout of the effect, when it is still pending: \<open>firstInputRef.current?.focus()\<close>.\<close>

definition focusTimeoutFires :: "system \<Rightarrow> system" where
  "focusTimeoutFires s =
     (case activeEffect s of
        None \<Rightarrow> s
      | Some n \<Rightarrow>
          if FocusTimeout n \<in> set (timeouts (doc s))
          then s\<lparr>doc := focus (isOpen (page s)) NameInput
                          ((doc s)\<lparr>timeouts := removeAll (FocusTimeout n) (timeouts (doc s))\<rparr>)\<rparr>
          else s)"

text \<open>
  The events of the program. The inputs and the form exist while the dialog is
  rendered. \<open>FocusMoves\<close> is a move of the focus by the user or by the browser's default
  action (a click, a Tab that no handler prevented).
\<close>

datatype event =
    Click element
  | KeyDown jsstring bool
  | InputChange field jsstring
  | InputBlur field
  | FormSubmit
  | FocusTimeoutFires
  | FocusMoves element

fun step :: "system \<Rightarrow> event \<Rightarrow> system" where
  "step s (Click e) = click e s"
| "step s (KeyDown key shiftKey) = keyDown key shiftKey s"
| "step s (InputChange k v) =
     (if isOpen (page s) then s\<lparr>form := handleInputChange k v (form s)\<rparr> else s)"
| "step s (InputBlur k) =
     (if isOpen (page s) then s\<lparr>form := handleBlur k (form s)\<rparr> else s)"
| "step s FormSubmit = (if isOpen (page s) then submitForm s else s)"
| "step s FocusTimeoutFires = focusTimeoutFires s"
| "step s (FocusMoves e) =
     (if e = Body \<or> canFocus (isOpen (page s)) e
      then s\<lparr>doc := (doc s)\<lparr>activeElement := Some e\<rparr>\<rparr> else s)"

definition run :: "system \<Rightarrow> event list \<Rightarrow> system" where
  "run s evs = foldl step s evs"

text \<open>
  A document in which the page's button has the focus and other code has a listener
  and a timeout of its own; the program after the button was clicked there; and after
  the focus timeout fired and a valid form was typed.
\<close>

definition busyDocument :: document where
  "busyDocument =
     \<lparr>activeElement = Some OpenButton, overflow = [],
      keydownListeners = [ForeignListener 0], timeouts = [ForeignTimeout 0]\<rparr>"

definition openedSystem :: system where
  "openedSystem = run (initialSystem busyDocument) [Click OpenButton]"

definition filledSystem :: system where
  "filledSystem =
     run openedSystem
       [FocusTimeoutFires, InputChange Name (js ''Alice''),
        InputChange Email (js ''alice@example.com'')]"

section \<open>Validation\<close>

text \<open>C2: the name validator reports an error exactly for a value whose trimmed form is
  empty or shorter than two code units.\<close>

theorem validateField_name_iff:
  "validateField Name v \<noteq> None \<longleftrightarrow> (trim v = [] \<or> length (trim v) < 2)"
  by simp

subsection \<open>The regular expression and the shape it decides\<close>

lemma rmatch_Chr: "rmatch (Chr c # as) s \<longleftrightarrow> (\<exists>v. s = c # v \<and> rmatch as v)"
  by (cases s) auto

lemma rmatch_OneOrMore:
  "rmatch (OneOrMore p # as) s \<longleftrightarrow>
     (\<exists>u v. s = u @ v \<and> u \<noteq> [] \<and> list_all p u \<and> rmatch as v)"
proof (induction s)
  case Nil
  then show ?case by simp
next
  case (Cons x xs)
  show ?case
  proof
    assume "rmatch (OneOrMore p # as) (x # xs)"
    then have px: "p x" and d: "rmatch as xs \<or> rmatch (OneOrMore p # as) xs" by auto
    from d show "\<exists>u v. x # xs = u @ v \<and> u \<noteq> [] \<and> list_all p u \<and> rmatch as v"
    proof
      assume "rmatch as xs"
      with px have "x # xs = [x] @ xs \<and> [x] \<noteq> [] \<and> list_all p [x] \<and> rmatch as xs" by simp
      then show ?thesis by blast
    next
      assume "rmatch (OneOrMore p # as) xs"
      with Cons.IH obtain u v where "xs = u @ v" "u \<noteq> []" "list_all p u" "rmatch as v"
        by blast
      with px have "x # xs = (x # u) @ v \<and> x # u \<noteq> [] \<and> list_all p (x # u) \<and> rmatch as v"
        by simp
      then show ?thesis by blast
    qed
  next
    assume "\<exists>u v. x # xs = u @ v \<and> u \<noteq> [] \<and> list_all p u \<and> rmatch as v"
    then obtain u v where uv: "x # xs = u @ v" "u \<noteq> []" "list_all p u" "rmatch as v"
      by blast
    then obtain u' where u: "u = x # u'" by (cases u) auto
    with uv have xs: "xs = u' @ v" and px: "p x" and pu: "list_all p u'" by auto
    show "rmatch (OneOrMore p # as) (x # xs)"
    proof (cases "u' = []")
      case True
      with xs uv px show ?thesis by simp
    next
      case False
      with xs pu uv(4) Cons.IH have "rmatch (OneOrMore p # as) xs" by blast
      with px show ?thesis by simp
    qed
  qed
qed

lemma rmatch_emailRegex: "rmatch emailRegex v \<longleftrightarrow> shape notSpaceNorAt v"
  unfolding emailRegex_def shape_def
  by (simp only: rmatch_OneOrMore rmatch_Chr rmatch.simps(1)) (auto; blast?)

text \<open>C3, as amended: the email validator reports an error exactly for a value whose
  trimmed form is empty or that is not of the shape "characters, \<open>@\<close>, characters, \<open>.\<close>,
  characters", where each run is not empty and holds neither white space nor \<open>@\<close>.\<close>

theorem validateField_email_iff:
  "validateField Email v \<noteq> None \<longleftrightarrow> (trim v = [] \<or> \<not> shape notSpaceNorAt v)"
  by (simp add: rmatch_emailRegex)

theorem validateField_email_iff_witness:
  "validateField Email (js ''alice@example.com'') = None \<and>
   trim (js ''alice@example.com'') \<noteq> [] \<and>
   shape notSpaceNorAt (js ''alice@example.com'')"
proof -
  have v: "validateField Email (js ''alice@example.com'') = None" by code_simp
  have t: "trim (js ''alice@example.com'') \<noteq> []" by code_simp
  from v validateField_email_iff [of "js ''alice@example.com''"]
  have "shape notSpaceNorAt (js ''alice@example.com'')" by blast
  with v t show ?thesis by blast
qed

text \<open>With runs of characters that are only required not to be white space, as C3 words
  the shape, the equivalence fails: \<open>a@b@c.d\<close> has the shape (\<open>a@b\<close>, \<open>@\<close>, \<open>c\<close>, \<open>.\<close>,
  \<open>d\<close>) and the validator rejects it, since the expression admits one \<open>@\<close> only.\<close>

lemma shape_notSpace_example: "shape notSpace (js ''a@b@c.d'')"
proof -
  have "js ''a@b@c.d'' = js ''a@b'' @ 0x0040 # js ''c'' @ 0x002E # js ''d''" by code_simp
  moreover have "js ''a@b'' \<noteq> []" "js ''c'' \<noteq> []" "js ''d'' \<noteq> []" by code_simp+
  moreover have "list_all notSpace (js ''a@b'')" "list_all notSpace (js ''c'')"
    "list_all notSpace (js ''d'')" by code_simp+
  ultimately show ?thesis unfolding shape_def by blast
qed

theorem validateField_email_counterexample:
  "\<not> (validateField Email (js ''a@b@c.d'') \<noteq> None \<longleftrightarrow>
       (trim (js ''a@b@c.d'') = [] \<or> \<not> shape notSpace (js ''a@b@c.d'')))"
proof -
  have "validateField Email (js ''a@b@c.d'') = Some msgEmailInvalid" by code_simp
  moreover have "trim (js ''a@b@c.d'') \<noteq> []" by code_simp
  ultimately show ?thesis using shape_notSpace_example by simp
qed

section \<open>Submission\<close>

lemma field_all: "(\<forall>k::field. P k) \<longleftrightarrow> P Name \<and> P Email"
  by (metis field.exhaust)

lemma field_ex: "(\<exists>k::field. P k) \<longleftrightarrow> P Name \<or> P Email"
  by (metis field.exhaust)

lemma truthy_validateField: "truthy (validateField k v) \<longleftrightarrow> validateField k v \<noteq> None"
  by (cases k) (simp_all add: truthy_def msgNameRequired_def msgNameTooShort_def
      msgEmailRequired_def msgEmailInvalid_def)

lemma validateForm_key:
  "validateForm d k =
     (if validateField k (d k) = None then None else Some (validateField k (d k)))"
  by (cases k) (simp_all add: validateForm_def keysFormData_def Let_def truthy_validateField)

lemma getProp_validateForm: "getProp (validateForm d) k = validateField k (d k)"
  by (simp add: getProp_def validateForm_key)

lemma objectKeys_validateForm:
  "objectKeys (validateForm d) = [] \<longleftrightarrow> (\<forall>k. validateField k (d k) = None)"
  by (simp add: objectKeys_def validateForm_key field_all)

lemma handleSubmit_valid:
  "\<forall>k. validateField k (formData s k) = None \<Longrightarrow>
     handleSubmit s = (initialForm, [formData s])"
  by (simp add: handleSubmit_def Let_def objectKeys_validateForm initialForm_def
      del: validateField.simps)

lemma handleSubmit_calls: "snd (handleSubmit s) = [] \<or> snd (handleSubmit s) = [formData s]"
  by (simp add: handleSubmit_def Let_def)

text \<open>C1: after the submit handler the stored errors are those of the full validation.
  If no field has an error, the submit callback was called once, with the values the
  form held, and values, errors and touched flags are back at their initial empty
  state; if a field has an error, the callback was not called and both fields are
  touched.\<close>

theorem handleSubmit_spec:
  "(\<forall>k. getProp (errors (fst (handleSubmit s))) k = validateField k (formData s k)) \<and>
   ((\<forall>k. validateField k (formData s k) = None) \<longrightarrow>
      snd (handleSubmit s) = [formData s] \<and> fst (handleSubmit s) = initialForm) \<and>
   ((\<exists>k. validateField k (formData s k) \<noteq> None) \<longrightarrow>
      snd (handleSubmit s) = [] \<and> (\<forall>k. touched (fst (handleSubmit s)) k = Some True))"
proof (cases "\<forall>k. validateField k (formData s k) = None")
  case True
  then have "handleSubmit s = (initialForm, [formData s])" by (rule handleSubmit_valid)
  with True show ?thesis by (simp add: initialForm_def getProp_def del: validateField.simps)
next
  case False
  then have "handleSubmit s =
      (s\<lparr>touched := allTouched, errors := validateForm (formData s)\<rparr>, [])"
    by (simp add: handleSubmit_def Let_def objectKeys_validateForm del: validateField.simps)
  with False show ?thesis
    by (simp add: getProp_validateForm allTouched_def field_all del: validateField.simps)
qed

theorem handleSubmit_spec_witness:
  "handleSubmit \<lparr>formData = aliceData, errors = Map.empty, touched = Map.empty\<rparr> =
     (initialForm, [aliceData]) \<and>
   snd (handleSubmit \<lparr>formData = shortNameData, errors = Map.empty, touched = Map.empty\<rparr>)
     = [] \<and>
   getProp (errors (fst (handleSubmit
      \<lparr>formData = shortNameData, errors = Map.empty, touched = Map.empty\<rparr>))) Name =
     Some msgNameTooShort \<and>
   getProp (errors (fst (handleSubmit
      \<lparr>formData = shortNameData, errors = Map.empty, touched = Map.empty\<rparr>))) Email = None \<and>
   touched (fst (handleSubmit
      \<lparr>formData = shortNameData, errors = Map.empty, touched = Map.empty\<rparr>)) Email =
     Some True"
proof -
  let ?a = "\<lparr>formData = aliceData, errors = Map.empty, touched = Map.empty\<rparr>"
  let ?b = "\<lparr>formData = shortNameData, errors = Map.empty, touched = Map.empty\<rparr>"
  have an: "validateField Name (aliceData Name) = None" by code_simp
  have ae: "validateField Email (aliceData Email) = None" by code_simp
  have bn: "validateField Name (shortNameData Name) = Some msgNameTooShort" by code_simp
  have be: "validateField Email (shortNameData Email) = None" by code_simp
  from an ae have "\<forall>k. validateField k (formData ?a k) = None"
    by (simp add: field_all del: validateField.simps)
  with handleSubmit_spec [of ?a] have a: "handleSubmit ?a = (initialForm, [aliceData])"
    by (simp add: prod_eq_iff del: validateField.simps)
  from bn have "\<exists>k. validateField k (formData ?b k) \<noteq> None"
    by (simp add: field_ex del: validateField.simps)
  with handleSubmit_spec [of ?b] bn be
  have "snd (handleSubmit ?b) = [] \<and>
      getProp (errors (fst (handleSubmit ?b))) Name = Some msgNameTooShort \<and>
      getProp (errors (fst (handleSubmit ?b))) Email = None \<and>
      touched (fst (handleSubmit ?b)) Email = Some True"
    by (simp del: validateField.simps)
  with a show ?thesis by blast
qed

text \<open>C10: when the full validation yields an error, the submit handler leaves the form
  values as they were; it only stores the errors and marks the fields touched, and it
  does not call the submit callback.\<close>

theorem handleSubmit_invalid_keeps_values:
  "objectKeys (validateForm (formData s)) \<noteq> [] \<Longrightarrow>
     formData (fst (handleSubmit s)) = formData s \<and> snd (handleSubmit s) = [] \<and>
     fst (handleSubmit s) = s\<lparr>errors := validateForm (formData s), touched := allTouched\<rparr>"
  by (simp add: handleSubmit_def Let_def)

theorem handleSubmit_invalid_keeps_values_witness:
  "objectKeys (validateForm shortNameData) = [Name] \<and>
   formData (fst (handleSubmit
      \<lparr>formData = shortNameData, errors = Map.empty, touched = Map.empty\<rparr>)) = shortNameData"
proof -
  let ?b = "\<lparr>formData = shortNameData, errors = Map.empty, touched = Map.empty\<rparr>"
  have k: "objectKeys (validateForm shortNameData) = [Name]" by code_simp
  then have "objectKeys (validateForm (formData ?b)) \<noteq> []" by simp
  from handleSubmit_invalid_keeps_values [OF this] k show ?thesis by simp
qed

section \<open>Validation while typing\<close>

lemma quiet_iff: "quiet s \<longleftrightarrow> (\<forall>k. touched s k = Some True \<or> getProp (errors s) k = None)"
  by (simp add: quiet_def keysFormData_def field_all)

lemma quiet_initialForm: "quiet initialForm"
  by (simp add: quiet_iff initialForm_def getProp_def)

lemma quiet_step: "quiet s \<Longrightarrow> quiet (form_step s e)"
proof (cases e)
  case (Change k v)
  assume "quiet s"
  then show ?thesis unfolding Change quiet_iff
    by (auto simp add: handleInputChange_def Let_def getProp_def simp del: validateField.simps)
next
  case (Blur k)
  assume "quiet s"
  then show ?thesis unfolding Blur quiet_iff
    by (auto simp add: handleBlur_def getProp_def simp del: validateField.simps)
qed

lemma quiet_run: "quiet s \<Longrightarrow> quiet (form_run s evs)"
  unfolding form_run_def by (induction evs arbitrary: s) (simp_all add: quiet_step)

lemma touched_step: "touched s k = Some True \<Longrightarrow> touched (form_step s e) k = Some True"
  by (cases e) (simp_all add: handleInputChange_def handleBlur_def Let_def del: validateField.simps)

lemma touched_run: "touched s k = Some True \<Longrightarrow> touched (form_run s evs) k = Some True"
  unfolding form_run_def by (induction evs arbitrary: s) (simp_all add: touched_step)

lemma change_touched:
  "touched s k = Some True \<Longrightarrow>
     formData (handleInputChange k v s) = (formData s)(k := v) \<and>
     getProp (errors (handleInputChange k v s)) k = validateField k v"
  by (simp add: handleInputChange_def Let_def getProp_def del: validateField.simps)

text \<open>C4: an input change to a field that is not touched stores the value and nothing
  else, and from a state without premature messages no sequence of input changes and
  blurs stores a message for a field that is not touched; once a field is touched, every
  later input change to it stores the validation of the new value; a blur marks the field
  touched and stores the validation of its current value, whatever the flag was.\<close>

theorem input_policy:
  "(touched s k \<noteq> Some True \<longrightarrow>
      handleInputChange k v s = s\<lparr>formData := (formData s)(k := v)\<rparr>) \<and>
   (quiet s \<and> touched (form_run s evs) k \<noteq> Some True \<longrightarrow>
      getProp (errors (form_run s evs)) k = None) \<and>
   (touched (form_run s evs) k = Some True \<longrightarrow>
      formData (form_run s (evs @ evs' @ [Change k v])) k = v \<and>
      getProp (errors (form_run s (evs @ evs' @ [Change k v]))) k = validateField k v) \<and>
   touched (handleBlur k s) k = Some True \<and>
   getProp (errors (handleBlur k s)) k = validateField k (formData s k) \<and>
   formData (handleBlur k s) = formData s"
proof -
  have a: "touched s k \<noteq> Some True \<longrightarrow>
      handleInputChange k v s = s\<lparr>formData := (formData s)(k := v)\<rparr>"
    by (simp add: handleInputChange_def Let_def)
  have b: "quiet s \<and> touched (form_run s evs) k \<noteq> Some True \<longrightarrow>
      getProp (errors (form_run s evs)) k = None"
    using quiet_run [of s evs] by (auto simp add: quiet_iff)
  have c: "touched (form_run s evs) k = Some True \<longrightarrow>
      formData (form_run s (evs @ evs' @ [Change k v])) k = v \<and>
      getProp (errors (form_run s (evs @ evs' @ [Change k v]))) k = validateField k v"
  proof
    assume "touched (form_run s evs) k = Some True"
    then have t: "touched (form_run (form_run s evs) evs') k = Some True" by (rule touched_run)
    have "form_run s (evs @ evs' @ [Change k v]) =
        handleInputChange k v (form_run (form_run s evs) evs')"
      by (simp add: form_run_def)
    with change_touched [OF t, of v] show "formData (form_run s (evs @ evs' @ [Change k v])) k = v \<and>
      getProp (errors (form_run s (evs @ evs' @ [Change k v]))) k = validateField k v"
      by (simp del: validateField.simps)
  qed
  have d: "touched (handleBlur k s) k = Some True \<and>
     getProp (errors (handleBlur k s)) k = validateField k (formData s k) \<and>
     formData (handleBlur k s) = formData s"
    by (simp add: handleBlur_def getProp_def del: validateField.simps)
  from a b c d show ?thesis by blast
qed

theorem input_policy_witness:
  "formData (form_run initialForm [Change Name (js ''A'')]) Name = js ''A'' \<and>
   getProp (errors (form_run initialForm [Change Name (js ''A'')])) Name = None \<and>
   getProp (errors (form_run initialForm [Change Name (js ''A''), Blur Name])) Name =
     Some msgNameTooShort \<and>
   getProp (errors (form_run initialForm
      ([Change Name (js ''A''), Blur Name] @ [Change Email (js ''x'')] @ [Change Name (js ''Al'')])))
      Name = None"
proof -
  let ?e1 = "[Change Name (js ''A'')]"
  let ?e2 = "[Change Name (js ''A''), Blur Name]"
  have u0: "touched initialForm Name \<noteq> Some True" by (simp add: initialForm_def)
  have u: "touched (form_run initialForm ?e1) Name \<noteq> Some True" by code_simp
  have t: "touched (form_run initialForm ?e2) Name = Some True" by code_simp
  have f0: "formData (form_run initialForm ?e1) Name = js ''A''"
    using input_policy [where s=initialForm and k=Name and v="js ''A''"] u0
    by (simp add: form_run_def)
  have f1: "getProp (errors (form_run initialForm ?e1)) Name = None"
    using input_policy [where s=initialForm and evs="?e1" and k=Name] u quiet_initialForm by blast
  have "form_run initialForm ?e2 = handleBlur Name (form_run initialForm ?e1)"
    by (simp add: form_run_def)
  moreover have "validateField Name (formData (form_run initialForm ?e1) Name) = Some msgNameTooShort"
    by code_simp
  ultimately have f2: "getProp (errors (form_run initialForm ?e2)) Name = Some msgNameTooShort"
    using input_policy [where s="form_run initialForm ?e1" and k=Name] by (simp del: validateField.simps)
  have "validateField Name (js ''Al'') = None" by code_simp
  with input_policy [where s=initialForm and evs="?e2" and k=Name and evs'="[Change Email (js ''x'')]" and v="js ''Al''"] t
  have f3: "getProp (errors (form_run initialForm
      (?e2 @ [Change Email (js ''x'')] @ [Change Name (js ''Al'')]))) Name = None"
    by (simp del: validateField.simps)
  from f0 f1 f2 f3 show ?thesis by blast
qed

section \<open>The pending request\<close>

lemma page_ok_initialPage: "page_ok initialPage"
  by (simp add: page_ok_def initialPage_def)

lemma page_ok_open: "page_ok p \<Longrightarrow> page_ok (openFormModal p)"
  by (auto simp add: page_ok_def openFormModal_def list_all_iff split: option.splits)

lemma page_ok_close: "page_ok p \<Longrightarrow> page_ok (handleCloseModal p)"
  by (auto simp add: page_ok_def handleCloseModal_def Let_def list_all_iff split: option.splits)

lemma page_ok_submit: "page_ok p \<Longrightarrow> page_ok (handleFormSubmit d p)"
  by (auto simp add: page_ok_def handleFormSubmit_def Let_def list_all_iff split: option.splits)

lemma page_ok_step: "page_ok p \<Longrightarrow> page_ok (page_step p e)"
  by (cases e) (simp_all add: page_ok_open page_ok_close page_ok_submit)

lemma page_ok_run: "page_ok p \<Longrightarrow> page_ok (page_run p evs)"
  unfolding page_run_def by (induction evs arbitrary: p) (simp_all add: page_ok_step)

lemma lost_step: "lost p r \<Longrightarrow> lost (page_step p e) r"
  by (cases e)
    (auto simp add: lost_def settled_def map_of_eq_None_iff openFormModal_def
      handleCloseModal_def handleFormSubmit_def Let_def split: option.splits)

lemma lost_run: "lost p r \<Longrightarrow> lost (page_run p evs) r"
  unfolding page_run_def by (induction evs arbitrary: p) (simp_all add: lost_step)

lemma lost_after_open: "page_ok p \<Longrightarrow> resolve p = Some r \<Longrightarrow> lost (openFormModal p) r"
  by (auto simp add: lost_def page_ok_def settled_def map_of_eq_None_iff openFormModal_def)

text \<open>C9: whatever the sequence of opens, closes and submits, no promise is resolved
  twice, and the close and the submit handler leave no resolve function behind; an open
  while a resolve function is held replaces it by that of a new promise, and the promise
  it belonged to is never resolved afterwards.\<close>

theorem pending_request_single_shot:
  "distinct (map fst (resolved (page_run initialPage evs))) \<and>
   resolve (handleCloseModal p) = None \<and> resolve (handleFormSubmit d p) = None \<and>
   (page_ok p \<and> resolve p = Some r \<longrightarrow>
      resolve (openFormModal p) = Some (promises p) \<and> promises p \<noteq> r \<and>
      settled (page_run (openFormModal p) evs') r = None)"
proof -
  have "page_ok (page_run initialPage evs)" by (simp add: page_ok_run page_ok_initialPage)
  then have a: "distinct (map fst (resolved (page_run initialPage evs)))"
    by (simp add: page_ok_def)
  have b: "resolve (handleCloseModal p) = None \<and> resolve (handleFormSubmit d p) = None"
    by (simp add: handleCloseModal_def handleFormSubmit_def Let_def)
  have c: "page_ok p \<and> resolve p = Some r \<longrightarrow>
      resolve (openFormModal p) = Some (promises p) \<and> promises p \<noteq> r \<and>
      settled (page_run (openFormModal p) evs') r = None"
  proof
    assume h: "page_ok p \<and> resolve p = Some r"
    then have "lost (page_run (openFormModal p) evs') r"
      by (simp add: lost_run lost_after_open)
    moreover from h have "promises p \<noteq> r" by (auto simp add: page_ok_def)
    ultimately show "resolve (openFormModal p) = Some (promises p) \<and> promises p \<noteq> r \<and>
      settled (page_run (openFormModal p) evs') r = None"
      by (simp add: lost_def openFormModal_def)
  qed
  from a b c show ?thesis by blast
qed

theorem pending_request_single_shot_witness:
  "map fst (resolved (page_run initialPage [Open, Close, Close, Open, SubmitData aliceData, Close]))
     = [0, 1] \<and>
   resolve (page_run initialPage [Open]) = Some 0 \<and>
   resolve (page_run initialPage [Open, Open]) = Some 1 \<and>
   settled (page_run initialPage [Open, Open, Close, SubmitData aliceData, Close]) 0 = None"
proof -
  have ok: "page_ok (page_run initialPage [Open])" by (simp add: page_ok_run page_ok_initialPage)
  have r: "resolve (page_run initialPage [Open]) = Some 0" by code_simp
  have a: "map fst (resolved (page_run initialPage [Open, Close, Close, Open, SubmitData aliceData, Close])) = [0, 1]"
    by (simp add: page_run_def initialPage_def openFormModal_def handleCloseModal_def handleFormSubmit_def)
  have e1: "page_run initialPage [Open, Open] = openFormModal (page_run initialPage [Open])"
    by (simp add: page_run_def)
  have e2: "page_run initialPage [Open, Open, Close, SubmitData aliceData, Close] =
     page_run (openFormModal (page_run initialPage [Open])) [Close, SubmitData aliceData, Close]"
    by (simp add: page_run_def)
  have p: "promises (page_run initialPage [Open]) = 1" by code_simp
  from pending_request_single_shot
    [where p="page_run initialPage [Open]" and r=0 and evs'="[Close, SubmitData aliceData, Close]"]
    ok r e1 e2 p
  have "resolve (page_run initialPage [Open, Open]) = Some 1 \<and>
     settled (page_run initialPage [Open, Open, Close, SubmitData aliceData, Close]) 0 = None"
    by simp
  with a r show ?thesis by blast
qed

section \<open>Teardown\<close>

lemma form_commit: "form (commit s) = form s"
  by (simp add: commit_def effectSetup_def effectCleanup_def removeModalNodes_def Let_def
      split: option.splits)

lemma page_commit: "page (commit s) = page s"
  by (simp add: commit_def effectSetup_def effectCleanup_def removeModalNodes_def Let_def
      split: option.splits)

lemma doc_commit_closed:
  assumes "\<not> isOpen (page s)" "activeEffect s = Some n"
  shows "keydownListeners (doc (commit s)) = removeAll (HandleKeyDown n) (keydownListeners (doc s))"
    and "timeouts (doc (commit s)) = removeAll (FocusTimeout n) (timeouts (doc s))"
    and "overflow (doc (commit s)) = []"
    and "lastFocusedElement s = Some e \<Longrightarrow> canFocus False e \<Longrightarrow> activeElement (doc (commit s)) = Some e"
    and "activeEffect (commit s) = None"
  using assms
  by (simp_all add: commit_def effectSetup_def effectCleanup_def removeModalNodes_def Let_def
      focus_def split: option.splits)

lemma rerender: "\<exists>p f. commit (s\<lparr>page := q\<rparr>) = commit (s\<lparr>page := p, form := f\<rparr>)"
proof -
  have "commit (s\<lparr>page := q\<rparr>) = commit (s\<lparr>page := q, form := form s\<rparr>)" by simp
  then show ?thesis by blast
qed

lemma step_cases:
  "page (step s ev) = page s \<or> (\<exists>p f. step s ev = commit (s\<lparr>page := p, form := f\<rparr>))"
proof (cases ev)
  case (Click e)
  show ?thesis unfolding Click by (simp add: click_def onClose_def rerender)
next
  case (KeyDown key shiftKey)
  show ?thesis unfolding KeyDown
    by (simp add: keyDown_def onClose_def rerender split: option.splits key_outcome.splits)
next
  case FormSubmit
  obtain f calls where h: "handleSubmit (form s) = (f, calls)" by (cases "handleSubmit (form s)")
  with handleSubmit_calls [of "form s"] have "calls = [] \<or> calls = [formData (form s)]" by simp
  then show ?thesis
  proof
    assume "calls = []"
    with h show ?thesis unfolding FormSubmit by (simp add: submitForm_def)
  next
    assume c: "calls = [formData (form s)]"
    have "\<exists>p f'. commit (s\<lparr>form := f, page := q\<rparr>) = commit (s\<lparr>page := p, form := f'\<rparr>)"
      for q by (rule exI [of _ q], rule exI [of _ f], cases s) simp
    with h c show ?thesis unfolding FormSubmit by (simp add: submitForm_def onSubmit_def)
  qed
qed (simp_all add: focusTimeoutFires_def split: option.splits)

text \<open>The effect's cleanup is pending exactly while the dialog is open.\<close>

lemma activeEffect_commit:
  "activeEffect (commit s) = (if isOpen (page s) then Some (effectRuns s) else None)"
  by (simp add: commit_def effectSetup_def effectCleanup_def removeModalNodes_def Let_def
      split: option.splits)

lemma lifecycle_step:
  assumes "isOpen (page s) \<longleftrightarrow> activeEffect s \<noteq> None"
  shows "isOpen (page (step s ev)) \<longleftrightarrow> activeEffect (step s ev) \<noteq> None"
proof (cases "page (step s ev) = page s \<and> activeEffect (step s ev) = activeEffect s")
  case True
  with assms show ?thesis by simp
next
  case False
  have "(page (step s ev) = page s \<and> activeEffect (step s ev) = activeEffect s) \<or>
        (\<exists>p f. step s ev = commit (s\<lparr>page := p, form := f\<rparr>))"
  proof (cases ev)
    case (Click e)
    show ?thesis unfolding Click by (simp add: click_def onClose_def rerender)
  next
    case (KeyDown key shiftKey)
    show ?thesis unfolding KeyDown
      by (simp add: keyDown_def onClose_def rerender split: option.splits key_outcome.splits)
  next
    case FormSubmit
    from step_cases [of s ev] show ?thesis
    proof
      assume same: "page (step s ev) = page s"
      obtain f calls where h: "handleSubmit (form s) = (f, calls)"
        by (cases "handleSubmit (form s)")
      with handleSubmit_calls [of "form s"] have "calls = [] \<or> calls = [formData (form s)]"
        by simp
      then show ?thesis
      proof
        assume "calls = []"
        with h show ?thesis unfolding FormSubmit by (simp add: submitForm_def)
      next
        assume c: "calls = [formData (form s)]"
        have "\<exists>p f'. commit (s\<lparr>form := f, page := q\<rparr>) = commit (s\<lparr>page := p, form := f'\<rparr>)"
          for q by (rule exI [of _ q], rule exI [of _ f], cases s) simp
        with h c show ?thesis unfolding FormSubmit by (simp add: submitForm_def onSubmit_def)
      qed
    qed blast
  qed (simp_all add: focusTimeoutFires_def split: option.splits)
  with False obtain p f where "step s ev = commit (s\<lparr>page := p, form := f\<rparr>)" by blast
  then show ?thesis by (simp add: activeEffect_commit page_commit)
qed

lemma lifecycle_run:
  "(isOpen (page s) \<longleftrightarrow> activeEffect s \<noteq> None) \<Longrightarrow>
     (isOpen (page (run s evs)) \<longleftrightarrow> activeEffect (run s evs) \<noteq> None)"
  unfolding run_def
proof (induction evs arbitrary: s)
  case Nil
  then show ?case by simp
next
  case (Cons ev evs)
  from Cons.prems have "isOpen (page (step s ev)) \<longleftrightarrow> activeEffect (step s ev) \<noteq> None"
    by (rule lifecycle_step)
  then show ?case using Cons.IH [of "step s ev"] by simp
qed

lemma lifecycle_initial:
  "isOpen (page (run (initialSystem d) evs)) \<longleftrightarrow> activeEffect (run (initialSystem d) evs) \<noteq> None"
  by (rule lifecycle_run) (simp add: initialSystem_def initialPage_def)

text \<open>C8: whatever event takes the dialog from open to closed, afterwards the effect's
  key listener is no longer registered and the other listeners are as they were, the
  body's overflow style is cleared, the effect's timeout is no longer pending and the
  other timeouts are as they were, the focus is on the element captured when the effect
  ran (if it can take the focus), and no cleanup is left to run.\<close>

theorem teardown_on_close:
  assumes "isOpen (page s)" and "\<not> isOpen (page (step s ev))" and "activeEffect s = Some n"
  shows "keydownListeners (doc (step s ev)) =
           removeAll (HandleKeyDown n) (keydownListeners (doc s)) \<and>
         HandleKeyDown n \<notin> set (keydownListeners (doc (step s ev))) \<and>
         overflow (doc (step s ev)) = [] \<and>
         timeouts (doc (step s ev)) = removeAll (FocusTimeout n) (timeouts (doc s)) \<and>
         FocusTimeout n \<notin> set (timeouts (doc (step s ev))) \<and>
         (\<forall>e. lastFocusedElement s = Some e \<and> canFocus False e \<longrightarrow>
              activeElement (doc (step s ev)) = Some e) \<and>
         activeEffect (step s ev) = None"
proof -
  from assms(1,2) have "page (step s ev) \<noteq> page s" by auto
  with step_cases [of s ev] obtain p f where st: "step s ev = commit (s\<lparr>page := p, form := f\<rparr>)"
    by blast
  let ?s1 = "s\<lparr>page := p, form := f\<rparr>"
  from st assms(2) have c: "\<not> isOpen (page ?s1)" by (simp add: page_commit)
  from assms(3) have a: "activeEffect ?s1 = Some n" by simp
  note d = doc_commit_closed [OF c a]
  have "\<forall>e. lastFocusedElement s = Some e \<and> canFocus False e \<longrightarrow>
              activeElement (doc (step s ev)) = Some e"
    using d(4) st by simp
  with d(1,2,3,5) st show ?thesis by simp
qed

lemma openedSystem_facts:
  "isOpen (page openedSystem)" "activeEffect openedSystem = Some 0"
  "lastFocusedElement openedSystem = Some OpenButton"
  "keydownListeners (doc openedSystem) = [ForeignListener 0, HandleKeyDown 0]"
  "timeouts (doc openedSystem) = [ForeignTimeout 0, FocusTimeout 0]"
  "overflow (doc openedSystem) = js ''hidden''"
  by code_simp+

lemma filledSystem_facts:
  "isOpen (page filledSystem)" "activeEffect filledSystem = Some 0"
  "lastFocusedElement filledSystem = Some OpenButton"
  "keydownListeners (doc filledSystem) = [ForeignListener 0, HandleKeyDown 0]"
  "timeouts (doc filledSystem) = [ForeignTimeout 0]"
  "activeElement (doc filledSystem) = Some NameInput"
  by code_simp+

theorem teardown_on_close_witness:
  "list_all (\<lambda>s'. \<not> isOpen (page s') \<and> doc s' = busyDocument)
     [step openedSystem (KeyDown (js ''Escape'') False),
      step openedSystem (Click Overlay),
      step openedSystem (Click CancelButton),
      step filledSystem FormSubmit]"
proof -
  have r: "doc (step s ev) = busyDocument"
    if "isOpen (page s)" and "\<not> isOpen (page (step s ev))" and "activeEffect s = Some 0"
      and "lastFocusedElement s = Some OpenButton"
      and "keydownListeners (doc s) = [ForeignListener 0, HandleKeyDown 0]"
      and "removeAll (FocusTimeout 0) (timeouts (doc s)) = [ForeignTimeout 0]"
    for s ev
    using teardown_on_close [OF that(1,2,3)] that(4,5,6)
    by (cases "doc (step s ev)") (simp add: busyDocument_def)
  have e1: "\<not> isOpen (page (step openedSystem (KeyDown (js ''Escape'') False)))" by code_simp
  have e2: "\<not> isOpen (page (step openedSystem (Click Overlay)))" by code_simp
  have e3: "\<not> isOpen (page (step openedSystem (Click CancelButton)))" by code_simp
  have e4: "\<not> isOpen (page (step filledSystem FormSubmit))" by code_simp
  note o = openedSystem_facts and f = filledSystem_facts
  have "doc (step openedSystem (KeyDown (js ''Escape'') False)) = busyDocument"
    by (rule r [OF o(1) e1 o(2) o(3) o(4)]) (simp add: o(5))
  moreover have "doc (step openedSystem (Click Overlay)) = busyDocument"
    by (rule r [OF o(1) e2 o(2) o(3) o(4)]) (simp add: o(5))
  moreover have "doc (step openedSystem (Click CancelButton)) = busyDocument"
    by (rule r [OF o(1) e3 o(2) o(3) o(4)]) (simp add: o(5))
  moreover have "doc (step filledSystem FormSubmit) = busyDocument"
    by (rule r [OF f(1) e4 f(2) f(3) f(4)]) (simp add: f(5))
  ultimately show ?thesis using e1 e2 e3 e4 by simp
qed


section \<open>Key events\<close>

lemma keyDown_inside_panel:
  "isOpen (page s) \<Longrightarrow> inPanel (keyTarget s) \<Longrightarrow> keyDown key shiftKey s = s"
  by (simp add: keyDown_def reachesDocument_def)

lemma keyDown_outside_panel:
  "\<not> inPanel (keyTarget s) \<Longrightarrow> activeEffect s = Some n \<Longrightarrow>
   HandleKeyDown n \<in> set (keydownListeners (doc s)) \<Longrightarrow>
     keyDown key shiftKey s =
       (case handleKeyDown key shiftKey (isOpen (page s)) getFocusableElements
               (activeElement (doc s)) of
          CallOnClose \<Rightarrow> onClose s
        | Redirect e \<Rightarrow> s\<lparr>doc := focus (isOpen (page s)) e (doc s)\<rparr>
        | NoAction \<Rightarrow> s)"
  by (simp add: keyDown_def reachesDocument_def)

lemma handleKeyDown_Escape: "handleKeyDown (js ''Escape'') shiftKey m fs a = CallOnClose"
  by (simp add: handleKeyDown_def)

lemma Tab_not_Escape: "js ''Tab'' \<noteq> js ''Escape''"
  by code_simp

lemma handleKeyDown_Tab:
  "handleKeyDown (js ''Tab'') shiftKey True fs a =
     (if fs = [] then NoAction
      else if shiftKey
        then (if a = Some (hd fs) \<or> \<not> containsActive a then Redirect (last fs) else NoAction)
        else (if a = Some (last fs) \<or> \<not> containsActive a then Redirect (hd fs) else NoAction))"
  by (cases fs) (simp_all add: handleKeyDown_def Tab_not_Escape Let_def)

lemma onClose_resolves:
  "resolve (page s) = Some r \<Longrightarrow>
     resolved (page (onClose s)) = resolved (page s) @ [(r, None)] \<and>
     \<not> isOpen (page (onClose s))"
  by (simp add: onClose_def page_commit handleCloseModal_def)

text \<open>An Escape that reaches the listener closes the dialog and resolves the pending
  promise with \<open>null\<close>, once; a Tab that reaches it with the focus outside the panel
  sends the focus to the first, with Shift to the last, focusable element.\<close>

lemma escape_outside_panel_closes:
  assumes "\<not> inPanel (keyTarget s)" and "activeEffect s = Some n"
    and "HandleKeyDown n \<in> set (keydownListeners (doc s))" and "resolve (page s) = Some r"
  shows "resolved (page (step s (KeyDown (js ''Escape'') shiftKey))) =
           resolved (page s) @ [(r, None)] \<and>
         \<not> isOpen (page (step s (KeyDown (js ''Escape'') shiftKey)))"
  using assms onClose_resolves [of s r]
  by (simp add: keyDown_outside_panel handleKeyDown_Escape)

lemma tab_outside_panel_redirects:
  assumes "isOpen (page s)" and "\<not> inPanel (keyTarget s)" and "activeEffect s = Some n"
    and "HandleKeyDown n \<in> set (keydownListeners (doc s))"
  shows "activeElement (doc (step s (KeyDown (js ''Tab'') False))) = Some NameInput"
    and "activeElement (doc (step s (KeyDown (js ''Tab'') True))) = Some SubmitButton"
proof -
  from assms(2) have "\<not> containsActive (activeElement (doc s))"
    by (simp add: keyTarget_def containsActive_def split: option.splits)
  with assms show "activeElement (doc (step s (KeyDown (js ''Tab'') False))) = Some NameInput"
    and "activeElement (doc (step s (KeyDown (js ''Tab'') True))) = Some SubmitButton"
    by (simp_all add: keyDown_outside_panel handleKeyDown_Tab getFocusableElements_def focus_def)
qed

text \<open>C7 does not hold of the code once the focus is in the dialog: after the focus
  timeout has moved the focus to the name input, an Escape key press changes nothing;
  the dialog stays open, no promise is resolved and the focus stays where it is.\<close>

theorem escape_inside_panel_ignored:
  "isOpen (page (run openedSystem [FocusTimeoutFires, KeyDown (js ''Escape'') False])) \<and>
   resolved (page (run openedSystem [FocusTimeoutFires, KeyDown (js ''Escape'') False])) = [] \<and>
   activeElement (doc (run openedSystem [FocusTimeoutFires, KeyDown (js ''Escape'') False]))
     = Some NameInput \<and>
   overflow (doc (run openedSystem [FocusTimeoutFires, KeyDown (js ''Escape'') False]))
     = js ''hidden''"
  by code_simp

text \<open>C6 does not hold of the code for a focus inside the dialog: a Tab on the last
  focusable element and a Shift+Tab on the first leave the focus where it is, although
  \<open>handleKeyDown\<close>, had it been called, would have redirected it.\<close>

theorem tab_inside_panel_not_redirected:
  "activeElement (doc (run openedSystem
      [FocusTimeoutFires, FocusMoves SubmitButton, KeyDown (js ''Tab'') False]))
     = Some SubmitButton \<and>
   activeElement (doc (run openedSystem
      [FocusTimeoutFires, KeyDown (js ''Tab'') True]))
     = Some NameInput \<and>
   handleKeyDown (js ''Tab'') False True getFocusableElements (Some SubmitButton)
     = Redirect NameInput \<and>
   handleKeyDown (js ''Tab'') True True getFocusableElements (Some NameInput)
     = Redirect SubmitButton"
  by code_simp

section \<open>The form state across sessions\<close>

lemma close_then_open_keeps_form:
  "isOpen (page s) \<Longrightarrow> e = CancelButton \<or> e = Overlay \<Longrightarrow>
     form (run s [Click e, Click OpenButton]) = form s \<and>
     isOpen (page (run s [Click e, Click OpenButton]))"
  by (auto simp add: run_def click_def onClose_def form_commit page_commit openFormModal_def)

lemma submit_resets_form:
  "isOpen (page s) \<Longrightarrow> \<forall>k. validateField k (formData (form s) k) = None \<Longrightarrow>
     form (step s FormSubmit) = initialForm \<and> \<not> isOpen (page (step s FormSubmit))"
proof -
  assume o: "isOpen (page s)" and v: "\<forall>k. validateField k (formData (form s) k) = None"
  from v have "handleSubmit (form s) = (initialForm, [formData (form s)])"
    by (rule handleSubmit_valid)
  with o show ?thesis
    by (simp add: submitForm_def onSubmit_def form_commit page_commit handleFormSubmit_def Let_def)
qed

text \<open>C5 does not hold of the code: the form state of a session that was closed by the
  Cancel button, a click on the backdrop or the Escape key is still there after the next
  open. Here the name \<open>A\<close> was typed and the field left before the close.\<close>

theorem form_state_survives_close:
  "formData (form (run openedSystem
      [FocusTimeoutFires, InputChange Name (js ''A''), InputBlur Name,
       FocusMoves CancelButton, Click CancelButton, Click OpenButton])) Name = js ''A'' \<and>
   getProp (errors (form (run openedSystem
      [FocusTimeoutFires, InputChange Name (js ''A''), InputBlur Name,
       FocusMoves CancelButton, Click CancelButton, Click OpenButton]))) Name
     = Some msgNameTooShort \<and>
   touched (form (run openedSystem
      [FocusTimeoutFires, InputChange Name (js ''A''), InputBlur Name,
       FocusMoves CancelButton, Click CancelButton, Click OpenButton])) Name = Some True \<and>
   isOpen (page (run openedSystem
      [FocusTimeoutFires, InputChange Name (js ''A''), InputBlur Name,
       FocusMoves CancelButton, Click CancelButton, Click OpenButton])) \<and>
   formData (form (run openedSystem
      [FocusTimeoutFires, InputChange Name (js ''A''), InputBlur Name,
       Click Overlay, Click OpenButton])) Name = js ''A'' \<and>
   formData (form (run openedSystem
      [FocusTimeoutFires, InputChange Name (js ''A''), InputBlur Name,
       FocusMoves OpenButton, KeyDown (js ''Escape'') False, Click OpenButton])) Name
     = js ''A''"
  by code_simp

end
